theory Spec2Isabelle
  imports Main "HOL-Library.Char_ord" "HOL-Library.List_Lexorder" "HOL-Library.Multiset"
    "HOL-Library.Signed_Division"
begin

section \<open>Errors\<close>

text \<open>
  Every way an operation of \<^verbatim>\<open>service.go\<close> can end without a response: an error value
  returned by the query builder or by the storage engine, or a run-time panic.
\<close>

datatype error =
    PanicIndexOutOfRange
  | ErrTxDone
  | BuilderError string
  | EngineError string

section \<open>Sort\<close>

record SortRequest =
  Items :: "string list"
  RemoveDuplicates :: bool

datatype SortResponse = SortResponse (resp_Items: "string list")

text \<open>
  \<^verbatim>\<open>sort.Strings\<close> orders a slice of strings ascending by byte-wise lexicographic
  comparison. Equal strings are indistinguishable, so its result is the one sorted
  permutation of the input; \<^const>\<open>sort\<close> at the lexicographic order on byte lists
  computes it.
\<close>

definition sort_Strings :: "string list \<Rightarrow> string list" where
  "sort_Strings items = sort items"

text \<open>
  The \<^verbatim>\<open>for _, item := range items\<close> loop of \<^verbatim>\<open>Sort\<close>, with its two variables
  \<^verbatim>\<open>pivot\<close> and \<^verbatim>\<open>uniqueItems\<close>.
\<close>

fun collapse :: "string \<Rightarrow> string list \<Rightarrow> string list \<Rightarrow> string list" where
  "collapse pivot uniqueItems [] = uniqueItems"
| "collapse pivot uniqueItems (item # rest) =
     (if item \<noteq> pivot then collapse item (uniqueItems @ [item]) rest
      else collapse pivot uniqueItems rest)"

text \<open>
  \<^verbatim>\<open>pivot := items[0]\<close> is an index expression on a slice: on a slice of length
  zero it panics with an index-out-of-range run-time error.
\<close>

definition Sort :: "SortRequest \<Rightarrow> error + SortResponse" where
  "Sort req =
     (let items = sort_Strings (Items req) in
      if \<not> RemoveDuplicates req then Inr (SortResponse items)
      else (case items of
              [] \<Rightarrow> Inl PanicIndexOutOfRange
            | pivot # _ \<Rightarrow> Inr (SortResponse (collapse pivot [pivot] items))))"

section \<open>Go values: int64, time.Time, database/sql's nullable columns\<close>

text \<open>
  An \<^verbatim>\<open>int64\<close> is an integer in \<open>[-2^63, 2^63)\<close>; arithmetic on it wraps around.
  The service itself never computes with a score (the addition is the engine's), so
  scores are plain integers; the wrap-around is written out where Go computes, in
  \<^verbatim>\<open>Time.UnixNano\<close>.
\<close>

definition int64_wrap :: "int \<Rightarrow> int" where
  "int64_wrap x = (x + 2 ^ 63) mod 2 ^ 64 - 2 ^ 63"

text \<open>
  A \<^verbatim>\<open>time.Time\<close> without monotonic clock reading: \<^verbatim>\<open>ext\<close> holds the seconds since
  January 1, year 1, and the low bits of \<^verbatim>\<open>wall\<close> the nanoseconds within the second.
  The zero value \<^verbatim>\<open>time.Time{}\<close> has both fields zero.
\<close>

record Time =
  ext :: int
  wall_nsec :: int

definition zero_Time :: Time where
  "zero_Time = \<lparr>ext = 0, wall_nsec = 0\<rparr>"

definition unixToInternal :: int where
  "unixToInternal = (1969 * 365 + 1969 div 4 - 1969 div 100 + 1969 div 400) * 86400"

definition internalToUnix :: int where
  "internalToUnix = - unixToInternal"

text \<open>\<^verbatim>\<open>time.Unix(sec, nsec)\<close>; Go's \<^verbatim>\<open>/\<close> on integers truncates towards zero.\<close>

definition time_Unix :: "int \<Rightarrow> int \<Rightarrow> Time" where
  "time_Unix sec nsec =
     (let (sec, nsec) =
        (if nsec < 0 \<or> nsec \<ge> 1000000000 then
           (let n = nsec sdiv 1000000000;
                sec = int64_wrap (sec + n);
                nsec = int64_wrap (nsec - n * 1000000000)
            in if nsec < 0 then (int64_wrap (sec - 1), nsec + 1000000000) else (sec, nsec))
         else (sec, nsec))
      in \<lparr>ext = int64_wrap (sec + unixToInternal), wall_nsec = nsec\<rparr>)"

text \<open>
  \<^verbatim>\<open>func (t Time) UnixNano() int64 { return (t.unixSec())*1e9 + int64(t.nsec()) }\<close>
  with \<^verbatim>\<open>unixSec = t.sec() + internalToUnix\<close>, all in \<^verbatim>\<open>int64\<close>.
\<close>

definition UnixNano :: "Time \<Rightarrow> int" where
  "UnixNano t = int64_wrap ((ext t + internalToUnix) * 1000000000 + wall_nsec t)"

record NullTime =
  nt_Time :: Time
  nt_Valid :: bool

record NullInt64 =
  Int64 :: int
  ni_Valid :: bool

text \<open>
  \<^verbatim>\<open>NullTime.Scan\<close> and \<^verbatim>\<open>NullInt64.Scan\<close>: a NULL column leaves the zero value and
  \<^verbatim>\<open>Valid = false\<close>.
\<close>

definition NullTime_Scan :: "Time option \<Rightarrow> NullTime" where
  "NullTime_Scan v =
     (case v of
        None \<Rightarrow> \<lparr>nt_Time = zero_Time, nt_Valid = False\<rparr>
      | Some t \<Rightarrow> \<lparr>nt_Time = t, nt_Valid = True\<rparr>)"

definition NullInt64_Scan :: "int option \<Rightarrow> NullInt64" where
  "NullInt64_Scan v =
     (case v of
        None \<Rightarrow> \<lparr>Int64 = 0, ni_Valid = False\<rparr>
      | Some n \<Rightarrow> \<lparr>Int64 = n, ni_Valid = True\<rparr>)"

text \<open>The \<^verbatim>\<open>interface{}\<close> values the service binds to placeholders.\<close>

datatype sqlval = VString string | VInt int | VTime Time

section \<open>The query builder\<close>

text \<open>
  The part of the squirrel builder the service uses. \<^verbatim>\<open>strings.Join\<close>,
  \<^verbatim>\<open>sq.Placeholders\<close>, then the insert and the select builder with their \<^verbatim>\<open>ToSql\<close>.
\<close>

fun strings_Join :: "string list \<Rightarrow> string \<Rightarrow> string" where
  "strings_Join [] sep = []"
| "strings_Join [x] sep = x"
| "strings_Join (x # y # ys) sep = x @ sep @ strings_Join (y # ys) sep"

text \<open>\<^verbatim>\<open>if count < 1 { return "" }; return strings.Repeat(",?", count)[1:]\<close>\<close>

definition Placeholders :: "nat \<Rightarrow> string" where
  "Placeholders n = (if n < 1 then [] else tl (concat (replicate n '',?'')))"

definition Insert_ToSql :: "string \<Rightarrow> string list \<Rightarrow> sqlval list \<Rightarrow> error + string \<times> sqlval list" where
  "Insert_ToSql into cols vals =
     (if into = [] then Inl (BuilderError ''insert statements must specify a table'')
      else if vals = [] then
        Inl (BuilderError ''insert statements must have at least one set of values or select clause'')
      else Inr (''INSERT INTO '' @ into @ '' ''
                 @ (if cols \<noteq> [] then ''('' @ strings_Join cols '','' @ '') '' else [])
                 @ ''VALUES ('' @ strings_Join (map (\<lambda>_. ''?'') vals) '','' @ '')'',
                vals))"

datatype wherePart = Part string "sqlval list" | BadPart error

record SelectBuilder =
  Columns :: "string list"
  From :: string
  WhereParts :: "wherePart list"
  OrderBys :: "string list"

definition sq_Select :: "string list \<Rightarrow> SelectBuilder" where
  "sq_Select cols = \<lparr>Columns = cols, From = [], WhereParts = [], OrderBys = []\<rparr>"

definition sq_From :: "string \<Rightarrow> SelectBuilder \<Rightarrow> SelectBuilder" where
  "sq_From tbl b = b\<lparr>From := tbl\<rparr>"

definition sq_Where :: "string \<Rightarrow> sqlval list \<Rightarrow> SelectBuilder \<Rightarrow> SelectBuilder" where
  "sq_Where pred args b = (if pred = [] then b else b\<lparr>WhereParts := WhereParts b @ [Part pred args]\<rparr>)"

definition sq_OrderBy :: "string \<Rightarrow> SelectBuilder \<Rightarrow> SelectBuilder" where
  "sq_OrderBy ob b = b\<lparr>OrderBys := OrderBys b @ [ob]\<rparr>"

text \<open>
  The WHERE parts in builder order: their texts, their arguments appended left to right,
  or the first error of a part.
\<close>

fun parts_ToSql :: "wherePart list \<Rightarrow> error + string list \<times> sqlval list" where
  "parts_ToSql [] = Inr ([], [])"
| "parts_ToSql (BadPart err # ps) = Inl err"
| "parts_ToSql (Part sql args # ps) =
     (case parts_ToSql ps of
        Inl err \<Rightarrow> Inl err
      | Inr (sqls, rest) \<Rightarrow> Inr (sql # sqls, args @ rest))"

definition Select_ToSql :: "SelectBuilder \<Rightarrow> error + string \<times> sqlval list" where
  "Select_ToSql b =
     (if Columns b = [] then
        Inl (BuilderError ''select statements must have at least one result column'')
      else
        (case parts_ToSql (WhereParts b) of
           Inl err \<Rightarrow> Inl err
         | Inr (sqls, args) \<Rightarrow>
             Inr (''SELECT '' @ strings_Join (Columns b) '', ''
                    @ (if From b \<noteq> [] then '' FROM '' @ From b else [])
                    @ (if sqls \<noteq> [] then '' WHERE '' @ strings_Join sqls '' AND '' else [])
                    @ (if OrderBys b \<noteq> [] then '' ORDER BY '' @ strings_Join (OrderBys b) '', '' else []),
                  args)))"

section \<open>Filter predicates\<close>

text \<open>
  Modelled from the spec: the range filter type of the request and its \<^verbatim>\<open>Where\<close>
  method (\<^verbatim>\<open>req.Birthday.Where("birthday", rq)\<close> and its siblings) are declared in the
  protos package, which is not among the sources. By the specification a filter is an
  equality or a range with one of six operators and its value or value pair, and it adds
  exactly one clause: \<^verbatim>\<open>col = ?\<close> for equal, \<^verbatim>\<open>col < ?\<close>, \<^verbatim>\<open>col <= ?\<close>,
  \<^verbatim>\<open>col > ?\<close>, \<^verbatim>\<open>col >= ?\<close> for the comparisons, \<^verbatim>\<open>col BETWEEN ? AND ?\<close> for
  between; the values are bound, never written into the text; a filter with the wrong
  number of values is a caller error, reported when the statement is assembled.
\<close>

datatype operator = LessThan | LessOrEqual | GreaterThan | GreaterOrEqual | Between | Equal

datatype FilterPredicate = Equality sqlval | Range operator "sqlval list"

fun operator_sql :: "operator \<Rightarrow> string" where
  "operator_sql LessThan = '' < ?''"
| "operator_sql LessOrEqual = '' <= ?''"
| "operator_sql GreaterThan = '' > ?''"
| "operator_sql GreaterOrEqual = '' >= ?''"
| "operator_sql Between = '' BETWEEN ? AND ?''"
| "operator_sql Equal = '' = ?''"

fun operator_arity :: "operator \<Rightarrow> nat" where
  "operator_arity Between = 2"
| "operator_arity _ = 1"

fun filter_Where :: "FilterPredicate \<Rightarrow> string \<Rightarrow> SelectBuilder \<Rightarrow> SelectBuilder" where
  "filter_Where (Equality v) col b = b\<lparr>WhereParts := WhereParts b @ [Part (col @ '' = ?'') [v]]\<rparr>"
| "filter_Where (Range op vs) col b =
     (if length vs = operator_arity op
      then b\<lparr>WhereParts := WhereParts b @ [Part (col @ operator_sql op) vs]\<rparr>
      else b\<lparr>WhereParts := WhereParts b @ [BadPart (BuilderError ''malformed range filter'')]\<rparr>)"

section \<open>The storage engine\<close>

text \<open>
  The two tables, \<^verbatim>\<open>clients(id PK, name, birthday NULLABLE, score, created_at)\<close> and
  \<^verbatim>\<open>client_matches(id PK auto-increment, client_id, score)\<close>, in storage order, with
  the auto-increment counter and the engine's clock (the value a \<^verbatim>\<open>created_at\<close>
  default takes).
\<close>

record client_row =
  id_col :: string
  name_col :: string
  birthday_col :: "Time option"
  score_col :: int
  created_at_col :: "Time option"

record match_row =
  match_id :: int
  client_id_col :: string
  match_score :: int

record store =
  clients :: "client_row list"
  client_matches :: "match_row list"
  auto_increment :: int
  clock :: Time

definition empty_store :: "Time \<Rightarrow> store" where
  "empty_store now = \<lparr>clients = [], client_matches = [], auto_increment = 1, clock = now\<rparr>"

datatype Result = Result (LastInsertId: int) (RowsAffected: nat)

text \<open>
  The engine is MySQL, outside the service (\<^verbatim>\<open>sqlx.Open("mysql", ...)\<close>). It is
  modelled by the meaning of each statement the service sends, selected by the statement
  text. The primary key rejects a second row with the same id; a row inserted without a
  \<^verbatim>\<open>birthday\<close> column holds NULL there; the score is added exactly. A statement that
  is none of these is not interpreted (the last branch), and no property below rests on
  that branch.
\<close>

fun insert_client :: "sqlval list \<Rightarrow> bool \<Rightarrow> store \<Rightarrow> error + Result \<times> store" where
  "insert_client [VString i, VString n, VTime b, VInt s] True st =
     (if i \<in> set (map id_col (clients st)) then Inl (EngineError ''Error 1062: Duplicate entry'')
      else Inr (Result 0 1,
                st\<lparr>clients := clients st @
                  [\<lparr>id_col = i, name_col = n, birthday_col = Some b, score_col = s,
                    created_at_col = Some (clock st)\<rparr>]\<rparr>))"
| "insert_client [VString i, VString n, VInt s] False st =
     (if i \<in> set (map id_col (clients st)) then Inl (EngineError ''Error 1062: Duplicate entry'')
      else Inr (Result 0 1,
                st\<lparr>clients := clients st @
                  [\<lparr>id_col = i, name_col = n, birthday_col = None, score_col = s,
                    created_at_col = Some (clock st)\<rparr>]\<rparr>))"
| "insert_client args with_birthday st = Inl (EngineError ''wrong arguments'')"

fun insert_match :: "sqlval list \<Rightarrow> store \<Rightarrow> error + Result \<times> store" where
  "insert_match [VString c, VInt s] st =
     Inr (Result (auto_increment st) 1,
          st\<lparr>client_matches := client_matches st @
                [\<lparr>match_id = auto_increment st, client_id_col = c, match_score = s\<rparr>],
             auto_increment := auto_increment st + 1\<rparr>)"
| "insert_match args st = Inl (EngineError ''wrong arguments'')"

definition add_score :: "int \<Rightarrow> string \<Rightarrow> client_row \<Rightarrow> client_row" where
  "add_score s c r = (if id_col r = c then r\<lparr>score_col := score_col r + s\<rparr> else r)"

fun update_score :: "sqlval list \<Rightarrow> store \<Rightarrow> error + Result \<times> store" where
  "update_score [VInt s, VString c] st =
     Inr (Result 0 (length (filter (\<lambda>r. id_col r = c) (clients st))),
          st\<lparr>clients := map (add_score s c) (clients st)\<rparr>)"
| "update_score args st = Inl (EngineError ''wrong arguments'')"

fun delete_client :: "sqlval list \<Rightarrow> store \<Rightarrow> error + Result \<times> store" where
  "delete_client [VString c] st =
     Inr (Result 0 (length (filter (\<lambda>r. id_col r = c) (clients st))),
          st\<lparr>clients := filter (\<lambda>r. id_col r \<noteq> c) (clients st)\<rparr>)"
| "delete_client args st = Inl (EngineError ''wrong arguments'')"

definition engine_exec :: "string \<Rightarrow> sqlval list \<Rightarrow> store \<Rightarrow> error + Result \<times> store" where
  "engine_exec q args st =
     (if q = ''INSERT INTO clients (id,name,birthday,score) VALUES (?,?,?,?)'' then
        insert_client args True st
      else if q = ''INSERT INTO clients (id,name,score) VALUES (?,?,?)'' then
        insert_client args False st
      else if q = ''INSERT INTO client_matches (client_id, score) VALUES (?, ?)'' then
        insert_match args st
      else if q = ''UPDATE clients SET score = score + ? WHERE id = ?'' then
        update_score args st
      else if q = ''DELETE FROM clients WHERE id = ?'' then
        delete_client args st
      else if q = ''DELETE FROM clients'' \<and> args = [] then
        Inr (Result 0 (length (clients st)), st\<lparr>clients := []\<rparr>)
      else Inl (EngineError ''statement outside the modelled fragment''))"

text \<open>
  Every call to the engine can also fail for reasons of its own (connection, deadlock,
  a value out of range): the \<open>fault\<close> of a call is the error the engine answers with, if
  any. A failed statement changes nothing.
\<close>

definition ExecContext :: "error option \<Rightarrow> string \<Rightarrow> sqlval list \<Rightarrow> store \<Rightarrow> error + Result \<times> store" where
  "ExecContext fault q args db =
     (case fault of Some err \<Rightarrow> Inl err | None \<Rightarrow> engine_exec q args db)"

text \<open>
  The row struct \<^verbatim>\<open>GetClients\<close> scans into, and the scan of one stored row.
\<close>

record rawclient =
  raw_ID :: string
  raw_Name :: string
  raw_Birthday :: NullTime
  raw_Score :: NullInt64
  raw_CreatedAt :: NullTime

definition scan_client :: "client_row \<Rightarrow> rawclient" where
  "scan_client r =
     \<lparr>raw_ID = id_col r, raw_Name = name_col r,
      raw_Birthday = NullTime_Scan (birthday_col r),
      raw_Score = NullInt64_Scan (Some (score_col r)),
      raw_CreatedAt = NullTime_Scan (created_at_col r)\<rparr>"

text \<open>
  The SELECT statements. \<^verbatim>\<open>SELECT id FROM clients ORDER BY score DESC\<close> yields every
  id, highest score first (rows of equal score in storage order here; SQL leaves their
  order open). The five-column select with \<^verbatim>\<open>id IN (?,...,?)\<close> yields the rows whose id
  is among the arguments; MySQL's grammar asks for at least one value between the
  parentheses, so \<^verbatim>\<open>id IN ()\<close> is answered with syntax error 1064.
\<close>

definition order_by_score_desc :: "client_row list \<Rightarrow> client_row list" where
  "order_by_score_desc rows = sort_key (\<lambda>r. - score_col r) rows"

definition SelectContext_ids :: "error option \<Rightarrow> string \<Rightarrow> sqlval list \<Rightarrow> store \<Rightarrow> error + string list" where
  "SelectContext_ids fault q args db =
     (case fault of
        Some err \<Rightarrow> Inl err
      | None \<Rightarrow>
          if q = ''SELECT id FROM clients ORDER BY score DESC'' \<and> args = [] then
            Inr (map id_col (order_by_score_desc (clients db)))
          else Inl (EngineError ''statement outside the modelled fragment''))"

definition SelectContext_clients :: "error option \<Rightarrow> string \<Rightarrow> sqlval list \<Rightarrow> store \<Rightarrow> error + rawclient list" where
  "SelectContext_clients fault q args db =
     (case fault of
        Some err \<Rightarrow> Inl err
      | None \<Rightarrow>
          if q = ''SELECT id, name, birthday, score, created_at FROM `clients` WHERE id IN ()'' then
            Inl (EngineError ''Error 1064: You have an error in your SQL syntax'')
          else if q = ''SELECT id, name, birthday, score, created_at FROM `clients` WHERE id IN (''
                        @ Placeholders (length args) @ '')'' then
            Inr (map scan_client (filter (\<lambda>r. VString (id_col r) \<in> set args) (clients db)))
          else Inl (EngineError ''statement outside the modelled fragment''))"

text \<open>
  Transactions. \<^verbatim>\<open>BeginTxx\<close> opens a working copy of the committed store; statements
  of the transaction act on the copy; \<^verbatim>\<open>Commit\<close> installs it, \<^verbatim>\<open>Rollback\<close> drops
  it; both finish the transaction, and every later call on it answers \<^verbatim>\<open>ErrTxDone\<close>.
  Transactions are serialised by the engine: one runs at a time.
\<close>

record Tx =
  tx_work :: store
  tx_done :: bool

definition BeginTxx :: "error option \<Rightarrow> store \<Rightarrow> error + Tx" where
  "BeginTxx fault db =
     (case fault of Some err \<Rightarrow> Inl err | None \<Rightarrow> Inr \<lparr>tx_work = db, tx_done = False\<rparr>)"

definition tx_Exec :: "error option \<Rightarrow> string \<Rightarrow> sqlval list \<Rightarrow> Tx \<Rightarrow> error + Result \<times> Tx" where
  "tx_Exec fault q args tx =
     (if tx_done tx then Inl ErrTxDone
      else (case ExecContext fault q args (tx_work tx) of
              Inl err \<Rightarrow> Inl err
            | Inr (result, work) \<Rightarrow> Inr (result, tx\<lparr>tx_work := work\<rparr>)))"

definition tx_Rollback :: "Tx \<Rightarrow> (error + unit) \<times> Tx" where
  "tx_Rollback tx =
     (if tx_done tx then (Inl ErrTxDone, tx) else (Inr (), tx\<lparr>tx_done := True\<rparr>))"

definition tx_Commit :: "error option \<Rightarrow> Tx \<Rightarrow> store \<Rightarrow> (error + unit) \<times> store" where
  "tx_Commit fault tx db =
     (if tx_done tx then (Inl ErrTxDone, db)
      else (case fault of Some err \<Rightarrow> (Inl err, db) | None \<Rightarrow> (Inr (), tx_work tx)))"

section \<open>The service\<close>

subsection \<open>NewClient\<close>

record NewClientRequest =
  nc_Name :: string
  nc_Birthday :: int
  nc_Score :: int

datatype NewClientResponse = NewClientResponse (nc_Id: string)

text \<open>
  The column and value slices \<^verbatim>\<open>NewClient\<close> builds. \<open>new_id\<close> is the result of
  \<^verbatim>\<open>utils.SecureID().String()\<close>.
\<close>

definition NewClient_cols_vals :: "string \<Rightarrow> NewClientRequest \<Rightarrow> string list \<times> sqlval list" where
  "NewClient_cols_vals new_id req =
     (let cols = []; vals = [];
          (cols, vals) = (cols @ [''id''], vals @ [VString new_id]);
          (cols, vals) = (cols @ [''name''], vals @ [VString (nc_Name req)]);
          (cols, vals) =
            (if nc_Birthday req \<noteq> 0
             then (cols @ [''birthday''], vals @ [VTime (time_Unix 0 (nc_Birthday req))])
             else (cols, vals));
          (cols, vals) = (cols @ [''score''], vals @ [VInt (nc_Score req)])
      in (cols, vals))"

definition NewClient :: "string \<Rightarrow> error option \<Rightarrow> NewClientRequest \<Rightarrow> store \<Rightarrow> (error + NewClientResponse) \<times> store" where
  "NewClient new_id fault req db =
     (let (cols, vals) = NewClient_cols_vals new_id req in
      case Insert_ToSql ''clients'' cols vals of
        Inl err \<Rightarrow> (Inl err, db)
      | Inr (q, args) \<Rightarrow>
          (case ExecContext fault q args db of
             Inl err \<Rightarrow> (Inl err, db)
           | Inr (_, db') \<Rightarrow> (Inr (NewClientResponse new_id), db')))"

subsection \<open>QueryClients\<close>

record QueryClientsRequest =
  q_Id :: "string option"
  q_Name :: "string option"
  q_Birthday :: "FilterPredicate option"
  q_Score :: "FilterPredicate option"
  q_CreatedAt :: "FilterPredicate option"

datatype QueryClientsResponse = QueryClientsResponse (q_Ids: "string list")

definition QueryClients_builder :: "QueryClientsRequest \<Rightarrow> SelectBuilder" where
  "QueryClients_builder req =
     (let rq = sq_From ''clients'' (sq_Select [''id'']);
          rq = (case q_Id req of Some v \<Rightarrow> sq_Where ''id'' [VString v] rq | None \<Rightarrow> rq);
          rq = (case q_Name req of Some v \<Rightarrow> sq_Where ''name LIKE ?'' [VString v] rq | None \<Rightarrow> rq);
          rq = (case q_Birthday req of Some f \<Rightarrow> filter_Where f ''birthday'' rq | None \<Rightarrow> rq);
          rq = (case q_Score req of Some f \<Rightarrow> filter_Where f ''score'' rq | None \<Rightarrow> rq);
          rq = (case q_CreatedAt req of Some f \<Rightarrow> filter_Where f ''created_at'' rq | None \<Rightarrow> rq)
      in sq_OrderBy ''score DESC'' rq)"

definition QueryClients :: "error option \<Rightarrow> QueryClientsRequest \<Rightarrow> store \<Rightarrow> error + QueryClientsResponse" where
  "QueryClients fault req db =
     (case Select_ToSql (QueryClients_builder req) of
        Inl err \<Rightarrow> Inl err
      | Inr (q, args) \<Rightarrow>
          (case SelectContext_ids fault q args db of
             Inl err \<Rightarrow> Inl err
           | Inr ids \<Rightarrow> Inr (QueryClientsResponse ids)))"

text \<open>The number of placeholders in a statement text.\<close>

definition placeholders :: "string \<Rightarrow> nat" where
  "placeholders q = length (filter (\<lambda>c. c = CHR ''?'') q)"

subsection \<open>GetClients\<close>

record Client =
  c_Id :: string
  c_Name :: string
  c_Birthday :: int
  c_Score :: int
  c_CreatedAt :: int

datatype GetClientsResponse = GetClientsResponse (Clients: "Client list")

definition toClient :: "rawclient \<Rightarrow> Client" where
  "toClient v =
     \<lparr>c_Id = raw_ID v,
      c_Name = raw_Name v,
      c_Birthday = UnixNano (nt_Time (raw_Birthday v)),
      c_Score = Int64 (raw_Score v),
      c_CreatedAt = UnixNano (nt_Time (raw_CreatedAt v))\<rparr>"

definition GetClients_ToSql :: "string list \<Rightarrow> error + string \<times> sqlval list" where
  "GetClients_ToSql ids =
     (let ifids = map VString ids in
      Select_ToSql
        (sq_Where (''id IN ('' @ Placeholders (length ifids) @ '')'') ifids
           (sq_From ''`clients`'' (sq_Select [''id'', ''name'', ''birthday'', ''score'', ''created_at'']))))"

definition GetClients :: "error option \<Rightarrow> string list \<Rightarrow> store \<Rightarrow> error + GetClientsResponse" where
  "GetClients fault ids db =
     (case GetClients_ToSql ids of
        Inl err \<Rightarrow> Inl err
      | Inr (q, args) \<Rightarrow>
          (case SelectContext_clients fault q args db of
             Inl err \<Rightarrow> Inl err
           | Inr rawclients \<Rightarrow> Inr (GetClientsResponse (map toClient rawclients))))"

subsection \<open>NewMatch\<close>

record NewMatchRequest =
  nm_ClientId :: string
  nm_Score :: int

datatype NewMatchResponse = NewMatchResponse (nm_Id: int)

text \<open>The engine's answer to each of the four calls \<^verbatim>\<open>NewMatch\<close> makes.\<close>

record faults =
  on_Begin :: "error option"
  on_Insert :: "error option"
  on_Update :: "error option"
  on_Commit :: "error option"

definition no_faults :: faults where
  "no_faults = \<lparr>on_Begin = None, on_Insert = None, on_Update = None, on_Commit = None\<rparr>"

text \<open>
  The statements of \<^verbatim>\<open>NewMatch\<close> between \<^verbatim>\<open>defer tx.Commit()\<close> and its return:
  the result, and the transaction as the deferred call finds it.
\<close>

definition NewMatch_body :: "faults \<Rightarrow> NewMatchRequest \<Rightarrow> Tx \<Rightarrow> (error + NewMatchResponse) \<times> Tx" where
  "NewMatch_body f req tx =
     (case tx_Exec (on_Insert f) ''INSERT INTO client_matches (client_id, score) VALUES (?, ?)''
             [VString (nm_ClientId req), VInt (nm_Score req)] tx of
        Inl err \<Rightarrow> (Inl err, snd (tx_Rollback tx))
      | Inr (result, tx) \<Rightarrow>
          (let matchId = LastInsertId result in
           case tx_Exec (on_Update f) ''UPDATE clients SET score = score + ? WHERE id = ?''
                  [VInt (nm_Score req), VString (nm_ClientId req)] tx of
             Inl err \<Rightarrow> (Inl err, snd (tx_Rollback tx))
           | Inr (_, tx) \<Rightarrow> (Inr (NewMatchResponse matchId), tx)))"

text \<open>
  \<^verbatim>\<open>defer tx.Commit()\<close> runs on every return after \<^verbatim>\<open>BeginTxx\<close> succeeded, and its
  result is dropped.
\<close>

definition NewMatch :: "faults \<Rightarrow> NewMatchRequest \<Rightarrow> store \<Rightarrow> (error + NewMatchResponse) \<times> store" where
  "NewMatch f req db =
     (case BeginTxx (on_Begin f) db of
        Inl err \<Rightarrow> (Inl err, db)
      | Inr tx \<Rightarrow>
          (let (res, tx) = NewMatch_body f req tx;
               (_, db) = tx_Commit (on_Commit f) tx db
           in (res, db)))"

subsection \<open>DeleteClient and DeleteAllClients\<close>

datatype DeleteClientResponse = DeleteClientResponse

datatype DeleteAllClientsResponse = DeleteAllClientsResponse

definition DeleteClient :: "error option \<Rightarrow> string \<Rightarrow> store \<Rightarrow> (error + DeleteClientResponse) \<times> store" where
  "DeleteClient fault req_Id db =
     (case ExecContext fault ''DELETE FROM clients WHERE id = ?'' [VString req_Id] db of
        Inl err \<Rightarrow> (Inl err, db)
      | Inr (_, db') \<Rightarrow> (Inr DeleteClientResponse, db'))"

definition DeleteAllClients :: "error option \<Rightarrow> store \<Rightarrow> (error + DeleteAllClientsResponse) \<times> store" where
  "DeleteAllClients fault db =
     (case ExecContext fault ''DELETE FROM clients'' [] db of
        Inl err \<Rightarrow> (Inl err, db)
      | Inr (_, db') \<Rightarrow> (Inr DeleteAllClientsResponse, db'))"

section \<open>Histories of calls\<close>

text \<open>
  A history is a sequence of calls that change the store, each with what the environment
  supplies to it: the generated id, and the engine's faults. Running a history also
  records, for every id, the score of the request that created the client.
\<close>

datatype call =
    CallNewClient string "error option" NewClientRequest
  | CallNewMatch faults NewMatchRequest
  | CallDeleteClient "error option" string
  | CallDeleteAllClients "error option"

fun step :: "call \<Rightarrow> store \<Rightarrow> store" where
  "step (CallNewClient new_id fault req) db = snd (NewClient new_id fault req db)"
| "step (CallNewMatch f req) db = snd (NewMatch f req db)"
| "step (CallDeleteClient fault i) db = snd (DeleteClient fault i db)"
| "step (CallDeleteAllClients fault) db = snd (DeleteAllClients fault db)"

fun creation :: "call \<Rightarrow> store \<Rightarrow> (string \<rightharpoonup> int) \<Rightarrow> (string \<rightharpoonup> int)" where
  "creation (CallNewClient new_id fault req) db created =
     (case fst (NewClient new_id fault req db) of
        Inl err \<Rightarrow> created
      | Inr resp \<Rightarrow> created(nc_Id resp \<mapsto> nc_Score req))"
| "creation c db created = created"

fun run :: "call list \<Rightarrow> store \<times> (string \<rightharpoonup> int) \<Rightarrow> store \<times> (string \<rightharpoonup> int)" where
  "run [] s = s"
| "run (c # cs) (db, created) = run cs (step c db, creation c db created)"

text \<open>
  The id generator is collision resistant: an id it returns is not yet referenced by a
  match row. (An id equal to a stored client's is rejected by the primary key.)
\<close>

fun fresh_ids :: "call list \<Rightarrow> store \<Rightarrow> bool" where
  "fresh_ids [] db = True"
| "fresh_ids (CallNewClient new_id fault req # cs) db =
     (new_id \<notin> set (map client_id_col (client_matches db))
      \<and> fresh_ids cs (step (CallNewClient new_id fault req) db))"
| "fresh_ids (c # cs) db = fresh_ids cs (step c db)"

text \<open>The sum of the score deltas of the match rows that reference a client id.\<close>

definition match_total :: "store \<Rightarrow> string \<Rightarrow> int" where
  "match_total db c = sum_list (map match_score (filter (\<lambda>m. client_id_col m = c) (client_matches db)))"

text \<open>
  The score invariant: every stored client's score is the score it was created with plus
  the deltas of the match rows that reference it.
\<close>

definition score_consistent :: "store \<Rightarrow> (string \<rightharpoonup> int) \<Rightarrow> bool" where
  "score_consistent db created \<longleftrightarrow>
     (\<forall>r \<in> set (clients db). created (id_col r) = Some (score_col r - match_total db (id_col r)))"

text \<open>
  A WHERE part is balanced when its text has as many placeholders as it binds arguments.
\<close>

fun balanced :: "wherePart \<Rightarrow> bool" where
  "balanced (Part sql args) = (placeholders sql = length args)"
| "balanced (BadPart err) = True"

section \<open>Properties of Sort\<close>

lemma collapse_remdups_adj:
  "collapse pivot uniqueItems items = uniqueItems @ tl (remdups_adj (pivot # items))"
proof (induction items arbitrary: pivot uniqueItems)
  case Nil
  show ?case by simp
next
  case (Cons item rest)
  have step: "remdups_adj (item # rest) = item # tl (remdups_adj (item # rest))"
    by simp
  show ?case
  proof (cases "item = pivot")
    case True
    then show ?thesis by (simp add: Cons.IH)
  next
    case False
    then have "tl (remdups_adj (pivot # item # rest)) = remdups_adj (item # rest)"
      by simp
    with False step show ?thesis
      by (simp add: Cons.IH del: remdups_adj.simps remdups_adj_Cons_alt)
  qed
qed

lemma collapse_first: "collapse pivot [pivot] (pivot # rest) = remdups_adj (pivot # rest)"
  by (simp add: collapse_remdups_adj)

lemma sorted_remdups_adj_strict:
  fixes xs :: "('a::linorder) list"
  shows "sorted xs \<Longrightarrow> sorted_wrt (<) (remdups_adj xs)"
proof (induction xs rule: remdups_adj.induct)
  case 1
  show ?case by simp
next
  case (2 x)
  show ?case by simp
next
  case (3 x y xs)
  show ?case
  proof (cases "x = y")
    case True
    with 3 show ?thesis by simp
  next
    case False
    from "3.prems" have le: "\<forall>z \<in> set (y # xs). x \<le> z" and s: "sorted (y # xs)"
      by simp_all
    from le False have "x < y" by auto
    moreover from s have "\<forall>z \<in> set (y # xs). y \<le> z" by auto
    ultimately have "\<forall>z \<in> set (remdups_adj (y # xs)). x < z"
      by (metis order.strict_trans2 remdups_adj_set)
    with False "3.IH"(2) s show ?thesis by simp
  qed
qed

lemma Sort_keep_duplicates:
  "Sort \<lparr>Items = items, RemoveDuplicates = False\<rparr> = Inr (SortResponse (sort items))"
  by (simp add: Sort_def sort_Strings_def)

lemma Sort_remove_duplicates_nonempty:
  assumes "items \<noteq> []"
  shows "Sort \<lparr>Items = items, RemoveDuplicates = True\<rparr>
           = Inr (SortResponse (remdups_adj (sort items)))"
proof -
  from assms have "sort items \<noteq> []"
    by (metis length_0_conv length_sort)
  then obtain pivot rest where split: "sort items = pivot # rest"
    by (cases "sort items") auto
  have "collapse pivot [pivot] (sort items) = remdups_adj (sort items)"
    unfolding split by (rule collapse_first)
  with split show ?thesis
    by (simp add: Sort_def sort_Strings_def del: remdups_adj.simps collapse.simps)
qed

lemma Sort_remove_duplicates_result:
  assumes "items \<noteq> []"
  shows "\<exists>out. Sort \<lparr>Items = items, RemoveDuplicates = True\<rparr> = Inr (SortResponse out)
           \<and> sorted out \<and> distinct out \<and> set out = set items"
proof -
  let ?out = "remdups_adj (sort items)"
  have strict: "sorted_wrt (<) ?out"
    by (rule sorted_remdups_adj_strict) simp
  then have "sorted ?out" "distinct ?out"
    by (simp_all add: strict_sorted_iff)
  moreover have "set ?out = set items" by simp
  ultimately show ?thesis
    using Sort_remove_duplicates_nonempty [OF assms] by blast
qed

lemma sorted_remdups_adj_eq_remdups:
  fixes xs :: "('a::linorder) list"
  assumes "sorted xs"
  shows "remdups_adj xs = remdups xs"
proof (rule sorted_distinct_set_unique)
  from sorted_remdups_adj_strict [OF assms]
  show "sorted (remdups_adj xs)" "distinct (remdups_adj xs)"
    by (simp_all add: strict_sorted_iff)
  show "sorted (remdups xs)" using assms by (rule sorted_remdups)
qed simp_all

lemma Sort_example_keep_duplicates:
  "Sort \<lparr>Items = [''b'', ''a'', ''b''], RemoveDuplicates = False\<rparr>
     = Inr (SortResponse [''a'', ''b'', ''b''])"
  by (simp add: Sort_def sort_Strings_def)

lemma Sort_example_remove_duplicates:
  "Sort \<lparr>Items = [''b'', ''a'', ''b''], RemoveDuplicates = True\<rparr>
     = Inr (SortResponse [''a'', ''b''])"
  by (simp add: Sort_def sort_Strings_def)

text \<open>
  C7. Sort returns the items in ascending order, all of them when duplicates are kept and
  each once when they are removed, on every input but one: on the empty list with
  duplicates removed it ends in the panic of C4 and returns nothing, where the claim asks
  for the sorted (empty) list.
\<close>

theorem Sort_sorts_except_empty_remove_duplicates:
  "Sort \<lparr>Items = items, RemoveDuplicates = rd\<rparr> =
     (if rd \<and> items = [] then Inl PanicIndexOutOfRange
      else Inr (SortResponse (if rd then remdups (sort items) else sort items)))"
proof (cases rd)
  case False
  then show ?thesis by (simp add: Sort_keep_duplicates)
next
  case True
  show ?thesis
  proof (cases "items = []")
    case empty: True
    with True show ?thesis by (simp add: Sort_def sort_Strings_def)
  next
    case False
    with True show ?thesis
      by (simp add: Sort_remove_duplicates_nonempty sorted_remdups_adj_eq_remdups)
  qed
qed

text \<open>
  C4. Sort of the empty list with duplicates removed: the claim asks for the empty list
  and no failure. The code reads \<^verbatim>\<open>items[0]\<close> before looking at the length, so the
  call ends in an index-out-of-range panic and yields no response.
\<close>

theorem Sort_empty_remove_duplicates_panics:
  "Sort \<lparr>Items = [], RemoveDuplicates = True\<rparr> = Inl PanicIndexOutOfRange"
  by (simp add: Sort_def sort_Strings_def)

section \<open>The engine on the statements of the service\<close>

lemma engine_exec_insert_client_without_birthday:
  "engine_exec ''INSERT INTO clients (id,name,score) VALUES (?,?,?)'' args st = insert_client args False st"
  by (simp add: engine_exec_def)

lemma engine_exec_insert_client_with_birthday:
  "engine_exec ''INSERT INTO clients (id,name,birthday,score) VALUES (?,?,?,?)'' args st = insert_client args True st"
  by (simp add: engine_exec_def)

lemma engine_exec_insert_match:
  "engine_exec ''INSERT INTO client_matches (client_id, score) VALUES (?, ?)'' args st = insert_match args st"
  by (simp add: engine_exec_def)

lemma engine_exec_update_score:
  "engine_exec ''UPDATE clients SET score = score + ? WHERE id = ?'' args st = update_score args st"
  by (simp add: engine_exec_def)

lemma engine_exec_delete_client:
  "engine_exec ''DELETE FROM clients WHERE id = ?'' args st = delete_client args st"
  by (simp add: engine_exec_def)

lemma engine_exec_delete_all:
  "engine_exec ''DELETE FROM clients'' [] st = Inr (Result 0 (length (clients st)), st\<lparr>clients := []\<rparr>)"
  by (simp add: engine_exec_def)

section \<open>Properties of NewClient\<close>

lemma NewClient_cols_vals_zero:
  "nc_Birthday req = 0 \<Longrightarrow>
   NewClient_cols_vals new_id req =
     ([''id'', ''name'', ''score''], [VString new_id, VString (nc_Name req), VInt (nc_Score req)])"
  by (simp add: NewClient_cols_vals_def)

lemma NewClient_cols_vals_nonzero:
  "nc_Birthday req \<noteq> 0 \<Longrightarrow>
   NewClient_cols_vals new_id req =
     ([''id'', ''name'', ''birthday'', ''score''],
      [VString new_id, VString (nc_Name req), VTime (time_Unix 0 (nc_Birthday req)), VInt (nc_Score req)])"
  by (simp add: NewClient_cols_vals_def)

lemma Insert_ToSql_three:
  "Insert_ToSql ''clients'' [''id'', ''name'', ''score''] [a, b, c]
     = Inr (''INSERT INTO clients (id,name,score) VALUES (?,?,?)'', [a, b, c])"
  by (simp add: Insert_ToSql_def)

lemma Insert_ToSql_four:
  "Insert_ToSql ''clients'' [''id'', ''name'', ''birthday'', ''score''] [a, b, c, d]
     = Inr (''INSERT INTO clients (id,name,birthday,score) VALUES (?,?,?,?)'', [a, b, c, d])"
  by (simp add: Insert_ToSql_def)

lemma NewClient_zero:
  assumes "nc_Birthday req = 0"
  shows "NewClient new_id None req db =
      (if new_id \<in> set (map id_col (clients db))
       then (Inl (EngineError ''Error 1062: Duplicate entry''), db)
       else (Inr (NewClientResponse new_id),
             db\<lparr>clients := clients db @
                [\<lparr>id_col = new_id, name_col = nc_Name req, birthday_col = None,
                  score_col = nc_Score req, created_at_col = Some (clock db)\<rparr>]\<rparr>))"
  by (simp add: NewClient_def NewClient_cols_vals_zero [OF assms] Insert_ToSql_three
      ExecContext_def engine_exec_insert_client_without_birthday)

lemma NewClient_nonzero:
  assumes "nc_Birthday req \<noteq> 0"
  shows "NewClient new_id None req db =
      (if new_id \<in> set (map id_col (clients db))
       then (Inl (EngineError ''Error 1062: Duplicate entry''), db)
       else (Inr (NewClientResponse new_id),
             db\<lparr>clients := clients db @
                [\<lparr>id_col = new_id, name_col = nc_Name req,
                  birthday_col = Some (time_Unix 0 (nc_Birthday req)),
                  score_col = nc_Score req, created_at_col = Some (clock db)\<rparr>]\<rparr>))"
  by (simp add: NewClient_def NewClient_cols_vals_nonzero [OF assms] Insert_ToSql_four
      ExecContext_def engine_exec_insert_client_with_birthday)

lemma NewClient_fault:
  "NewClient new_id (Some err) req db = (Inl err, db)"
  by (cases "nc_Birthday req = 0")
     (simp_all add: NewClient_def NewClient_cols_vals_zero NewClient_cols_vals_nonzero
        Insert_ToSql_three Insert_ToSql_four ExecContext_def)

text \<open>
  C10. A request whose birthday is 0 is treated as one without birthday: the insert has
  the columns id, name and score only, the statement has no \<^verbatim>\<open>birthday\<close> column, and
  the row the engine stores holds NULL there, as for every client created without a
  birthday. A birthday at the epoch itself is therefore not representable.
\<close>

theorem NewClient_zero_birthday_is_absent:
  assumes "nc_Birthday req = 0"
  shows "NewClient_cols_vals new_id req =
           ([''id'', ''name'', ''score''], [VString new_id, VString (nc_Name req), VInt (nc_Score req)])
       \<and> Insert_ToSql ''clients'' (fst (NewClient_cols_vals new_id req)) (snd (NewClient_cols_vals new_id req))
           = Inr (''INSERT INTO clients (id,name,score) VALUES (?,?,?)'',
                  [VString new_id, VString (nc_Name req), VInt (nc_Score req)])
       \<and> (new_id \<notin> set (map id_col (clients db)) \<longrightarrow>
            NewClient new_id None req db =
              (Inr (NewClientResponse new_id),
               db\<lparr>clients := clients db @
                  [\<lparr>id_col = new_id, name_col = nc_Name req, birthday_col = None,
                    score_col = nc_Score req, created_at_col = Some (clock db)\<rparr>]\<rparr>))"
  using assms
  by (simp add: NewClient_cols_vals_zero Insert_ToSql_three NewClient_zero)

theorem NewClient_zero_birthday_is_absent_witness:
  "nc_Birthday \<lparr>nc_Name = ''Ann'', nc_Birthday = 0, nc_Score = 7\<rparr> = 0
   \<and> ''c1'' \<notin> set (map id_col (clients (empty_store zero_Time)))
   \<and> NewClient ''c1'' None \<lparr>nc_Name = ''Ann'', nc_Birthday = 0, nc_Score = 7\<rparr> (empty_store zero_Time)
       = (Inr (NewClientResponse ''c1''),
          \<lparr>clients = [\<lparr>id_col = ''c1'', name_col = ''Ann'', birthday_col = None, score_col = 7,
                        created_at_col = Some zero_Time\<rparr>],
           client_matches = [], auto_increment = 1, clock = zero_Time\<rparr>)"
  using NewClient_zero_birthday_is_absent
    [of "\<lparr>nc_Name = ''Ann'', nc_Birthday = 0, nc_Score = 7\<rparr>" "''c1''" "empty_store zero_Time"]
  by (simp add: empty_store_def)

section \<open>Properties of DeleteClient and DeleteAllClients\<close>

lemma DeleteClient_ok:
  "DeleteClient None i db =
     (Inr DeleteClientResponse, db\<lparr>clients := filter (\<lambda>r. id_col r \<noteq> i) (clients db)\<rparr>)"
  by (simp add: DeleteClient_def ExecContext_def engine_exec_delete_client)

lemma DeleteClient_fault: "DeleteClient (Some err) i db = (Inl err, db)"
  by (simp add: DeleteClient_def ExecContext_def)

lemma DeleteAllClients_ok:
  "DeleteAllClients None db = (Inr DeleteAllClientsResponse, db\<lparr>clients := []\<rparr>)"
  by (simp add: DeleteAllClients_def ExecContext_def engine_exec_delete_all)

lemma DeleteAllClients_fault: "DeleteAllClients (Some err) db = (Inl err, db)"
  by (simp add: DeleteAllClients_def ExecContext_def)

text \<open>
  C9. When the engine executes the statement, DeleteClient answers with success whether
  or not a row had the id: afterwards no row has it, the other rows are untouched, a
  store without such a row is left as it was, and a second delete of the same id succeeds
  and changes nothing.
\<close>

theorem DeleteClient_succeeds_and_is_idempotent:
  "fst (DeleteClient None i db) = Inr DeleteClientResponse
   \<and> clients (snd (DeleteClient None i db)) = filter (\<lambda>r. id_col r \<noteq> i) (clients db)
   \<and> i \<notin> set (map id_col (clients (snd (DeleteClient None i db))))
   \<and> (i \<notin> set (map id_col (clients db)) \<longrightarrow> DeleteClient None i db = (Inr DeleteClientResponse, db))
   \<and> DeleteClient None i (snd (DeleteClient None i db))
       = (Inr DeleteClientResponse, snd (DeleteClient None i db))"
proof -
  have absent: "filter (\<lambda>r. id_col r \<noteq> i) rows = rows" if "i \<notin> set (map id_col rows)"
    for rows :: "client_row list"
    using that by (induction rows) auto
  show ?thesis
    by (auto simp add: DeleteClient_ok absent)
qed

theorem DeleteClient_succeeds_and_is_idempotent_witness:
  "''nobody'' \<notin> set (map id_col (clients (empty_store zero_Time)))
   \<and> DeleteClient None ''nobody'' (empty_store zero_Time)
        = (Inr DeleteClientResponse, empty_store zero_Time)"
  using DeleteClient_succeeds_and_is_idempotent [of "''nobody''" "empty_store zero_Time"]
  by (simp add: empty_store_def)

section \<open>Properties of GetClients\<close>

lemma GetClients_ToSql_eq:
  "GetClients_ToSql ids =
     Inr (''SELECT id, name, birthday, score, created_at FROM `clients` WHERE id IN (''
            @ Placeholders (length ids) @ '')'', map VString ids)"
  by (simp add: GetClients_ToSql_def Select_ToSql_def sq_Where_def sq_From_def sq_Select_def)

lemma Placeholders_Suc: "Placeholders (Suc n) = CHR ''?'' # concat (replicate n '',?'')"
  by (simp add: Placeholders_def)

lemma GetClients_nonempty:
  assumes "ids \<noteq> []"
  shows "GetClients None ids db =
     Inr (GetClientsResponse
            (map toClient (map scan_client (filter (\<lambda>r. id_col r \<in> set ids) (clients db)))))"
proof -
  from assms obtain n where n: "length ids = Suc n"
    by (cases ids) auto
  have "inj VString"
    by (simp add: inj_def)
  then have "VString x \<in> VString ` set ids \<longleftrightarrow> x \<in> set ids" for x
    by (rule inj_image_mem_iff)
  then show ?thesis
    by (simp add: GetClients_def GetClients_ToSql_eq SelectContext_clients_def n Placeholders_Suc)
qed

lemma GetClients_one:
  "GetClients None [c] db =
     Inr (GetClientsResponse (map toClient (map scan_client (filter (\<lambda>r. id_col r = c) (clients db)))))"
  by (simp add: GetClients_nonempty)

text \<open>
  C5. GetClients of the empty id list: the claim asks for an empty result and no error.
  The code has no branch for the empty list; it sends the statement with the empty
  \<^verbatim>\<open>IN ()\<close> list, which the MySQL engine rejects, and returns the engine's error.
\<close>

theorem GetClients_empty_ids_is_rejected:
  "GetClients_ToSql [] =
     Inr (''SELECT id, name, birthday, score, created_at FROM `clients` WHERE id IN ()'', [])
   \<and> GetClients None [] db = Inl (EngineError ''Error 1064: You have an error in your SQL syntax'')"
  by (simp add: GetClients_def GetClients_ToSql_eq Placeholders_def SelectContext_clients_def)

lemma UnixNano_zero_Time: "UnixNano zero_Time = - 6795364578871345152"
  by (simp add: UnixNano_def zero_Time_def internalToUnix_def unixToInternal_def int64_wrap_def)

lemma toClient_null_birthday:
  "birthday_col r = None \<Longrightarrow> c_Birthday (toClient (scan_client r)) = - 6795364578871345152"
  by (simp add: toClient_def scan_client_def NullTime_Scan_def UnixNano_zero_Time)

lemma toClient_null_created_at:
  "created_at_col r = None \<Longrightarrow> c_CreatedAt (toClient (scan_client r)) = - 6795364578871345152"
  by (simp add: toClient_def scan_client_def NullTime_Scan_def UnixNano_zero_Time)

text \<open>
  C6. A NULL birthday read back by GetClients: the claim asks for the unset value, which
  for the \<^verbatim>\<open>int64\<close> field of the response is 0 (the value NewClient takes as "no
  birthday"). The code does not look at \<^verbatim>\<open>Valid\<close>; it converts the zero
  \<^verbatim>\<open>time.Time\<close> with \<^verbatim>\<open>UnixNano\<close>, whose \<^verbatim>\<open>int64\<close> product overflows. The call does
  not fail, but the client created without birthday comes back with the birthday
  \<open>-6795364578871345152\<close>.
\<close>

theorem GetClients_null_birthday_decodes_to_garbage:
  "GetClients None [''c1'']
     (snd (NewClient ''c1'' None \<lparr>nc_Name = ''Ann'', nc_Birthday = 0, nc_Score = 7\<rparr>
             (empty_store (time_Unix 1600000000 0))))
   = Inr (GetClientsResponse
       [\<lparr>c_Id = ''c1'', c_Name = ''Ann'', c_Birthday = - 6795364578871345152, c_Score = 7,
         c_CreatedAt = 1600000000000000000\<rparr>])"
  apply (simp add: NewClient_zero empty_store_def GetClients_def GetClients_ToSql_eq Placeholders_def SelectContext_clients_def)
  apply (simp add: scan_client_def toClient_def NullTime_Scan_def NullInt64_Scan_def UnixNano_zero_Time)
  apply (simp add: UnixNano_def time_Unix_def internalToUnix_def unixToInternal_def int64_wrap_def)
  done

section \<open>Properties of NewMatch\<close>

lemma tx_Exec_fault: "\<not> tx_done tx \<Longrightarrow> tx_Exec (Some err) q args tx = Inl err"
  by (simp add: tx_Exec_def ExecContext_def)

lemma tx_Exec_insert_match:
  "\<not> tx_done tx \<Longrightarrow>
   tx_Exec None ''INSERT INTO client_matches (client_id, score) VALUES (?, ?)'' [VString c, VInt s] tx
     = Inr (Result (auto_increment (tx_work tx)) 1,
            tx\<lparr>tx_work := (tx_work tx)\<lparr>client_matches := client_matches (tx_work tx) @
                  [\<lparr>match_id = auto_increment (tx_work tx), client_id_col = c, match_score = s\<rparr>],
                auto_increment := auto_increment (tx_work tx) + 1\<rparr>\<rparr>)"
  by (simp add: tx_Exec_def ExecContext_def engine_exec_insert_match)

lemma tx_Exec_update_score:
  "\<not> tx_done tx \<Longrightarrow>
   tx_Exec None ''UPDATE clients SET score = score + ? WHERE id = ?'' [VInt s, VString c] tx
     = Inr (Result 0 (length (filter (\<lambda>r. id_col r = c) (clients (tx_work tx)))),
            tx\<lparr>tx_work := (tx_work tx)\<lparr>clients := map (add_score s c) (clients (tx_work tx))\<rparr>\<rparr>)"
  by (simp add: tx_Exec_def ExecContext_def engine_exec_update_score)

lemma NewMatch_body_insert_fails:
  "\<not> tx_done tx \<Longrightarrow> on_Insert f = Some err \<Longrightarrow>
   NewMatch_body f req tx = (Inl err, tx\<lparr>tx_done := True\<rparr>)"
  by (simp add: NewMatch_body_def tx_Exec_fault tx_Rollback_def)

lemma NewMatch_body_update_fails:
  "\<not> tx_done tx \<Longrightarrow> on_Insert f = None \<Longrightarrow> on_Update f = Some err \<Longrightarrow>
   fst (NewMatch_body f req tx) = Inl err \<and> tx_done (snd (NewMatch_body f req tx))"
  by (simp add: NewMatch_body_def tx_Exec_fault tx_Exec_insert_match tx_Rollback_def)

lemma NewMatch_body_ok:
  "\<not> tx_done tx \<Longrightarrow> on_Insert f = None \<Longrightarrow> on_Update f = None \<Longrightarrow>
   NewMatch_body f req tx =
     (Inr (NewMatchResponse (auto_increment (tx_work tx))),
      tx\<lparr>tx_work := (tx_work tx)
            \<lparr>client_matches := client_matches (tx_work tx) @
               [\<lparr>match_id = auto_increment (tx_work tx), client_id_col = nm_ClientId req,
                 match_score = nm_Score req\<rparr>],
             auto_increment := auto_increment (tx_work tx) + 1,
             clients := map (add_score (nm_Score req) (nm_ClientId req)) (clients (tx_work tx))\<rparr>\<rparr>)"
  by (simp add: NewMatch_body_def tx_Exec_insert_match tx_Exec_update_score)

lemma NewMatch_begin_fails: "on_Begin f = Some err \<Longrightarrow> NewMatch f req db = (Inl err, db)"
  by (simp add: NewMatch_def BeginTxx_def)

lemma NewMatch_insert_fails:
  "on_Begin f = None \<Longrightarrow> on_Insert f = Some err \<Longrightarrow> NewMatch f req db = (Inl err, db)"
  by (simp add: NewMatch_def BeginTxx_def NewMatch_body_insert_fails tx_Commit_def)

lemma NewMatch_update_fails:
  assumes "on_Begin f = None" "on_Insert f = None" "on_Update f = Some err"
  shows "NewMatch f req db = (Inl err, db)"
proof -
  obtain res tx where body: "NewMatch_body f req \<lparr>tx_work = db, tx_done = False\<rparr> = (res, tx)"
    by force
  with NewMatch_body_update_fails [of "\<lparr>tx_work = db, tx_done = False\<rparr>" f err req] assms
  have "res = Inl err" "tx_done tx"
    by simp_all
  with assms body show ?thesis
    by (simp add: NewMatch_def BeginTxx_def tx_Commit_def)
qed

lemma NewMatch_commit_fails:
  assumes "on_Begin f = None" "on_Insert f = None" "on_Update f = None" "on_Commit f = Some err"
  shows "NewMatch f req db = (Inr (NewMatchResponse (auto_increment db)), db)"
  using assms by (simp add: NewMatch_def BeginTxx_def NewMatch_body_ok tx_Commit_def)

lemma NewMatch_ok:
  assumes "on_Begin f = None" "on_Insert f = None" "on_Update f = None" "on_Commit f = None"
  shows "NewMatch f req db =
     (Inr (NewMatchResponse (auto_increment db)),
      db\<lparr>client_matches := client_matches db @
            [\<lparr>match_id = auto_increment db, client_id_col = nm_ClientId req,
              match_score = nm_Score req\<rparr>],
         auto_increment := auto_increment db + 1,
         clients := map (add_score (nm_Score req) (nm_ClientId req)) (clients db)\<rparr>)"
  using assms by (simp add: NewMatch_def BeginTxx_def NewMatch_body_ok tx_Commit_def)

lemma NewMatch_store:
  "snd (NewMatch f req db) = db \<or> snd (NewMatch f req db) = snd (NewMatch no_faults req db)"
proof -
  consider e where "on_Begin f = Some e"
    | e where "on_Begin f = None" "on_Insert f = Some e"
    | e where "on_Begin f = None" "on_Insert f = None" "on_Update f = Some e"
    | e where "on_Begin f = None" "on_Insert f = None" "on_Update f = None" "on_Commit f = Some e"
    | "on_Begin f = None" "on_Insert f = None" "on_Update f = None" "on_Commit f = None"
    by (cases "on_Begin f"; cases "on_Insert f"; cases "on_Update f"; cases "on_Commit f") auto
  then show ?thesis
    by cases (simp_all add: NewMatch_begin_fails NewMatch_insert_fails NewMatch_update_fails
        NewMatch_commit_fails NewMatch_ok no_faults_def)
qed

lemma NewMatch_success_cases:
  assumes "fst (NewMatch f req db) = Inr resp"
  shows "on_Begin f = None \<and> on_Insert f = None \<and> on_Update f = None"
proof -
  consider e where "on_Begin f = Some e"
    | e where "on_Begin f = None" "on_Insert f = Some e"
    | e where "on_Begin f = None" "on_Insert f = None" "on_Update f = Some e"
    | "on_Begin f = None" "on_Insert f = None" "on_Update f = None"
    by (cases "on_Begin f"; cases "on_Insert f"; cases "on_Update f") auto
  then show ?thesis
    using assms
    by cases (simp_all add: NewMatch_begin_fails NewMatch_insert_fails NewMatch_update_fails)
qed

text \<open>
  C3. When the transaction has begun and the insert of the match row fails, or the insert
  succeeds and the update of the score fails, NewMatch rolls the transaction back (the
  deferred Commit then finds it finished and does nothing) and returns the error of the
  failed step; the committed store is the one before the call, so neither a match row
  without its score update nor the converse is ever stored, and after a failed update
  the match row is not there.
\<close>

theorem NewMatch_failed_step_rolls_back:
  "(on_Begin f = None \<and> on_Insert f = Some err \<longrightarrow>
      NewMatch_body f req \<lparr>tx_work = db, tx_done = False\<rparr>
        = (Inl err, \<lparr>tx_work = db, tx_done = True\<rparr>)
      \<and> NewMatch f req db = (Inl err, db))
   \<and> (on_Begin f = None \<and> on_Insert f = None \<and> on_Update f = Some err \<longrightarrow>
      fst (NewMatch_body f req \<lparr>tx_work = db, tx_done = False\<rparr>) = Inl err
      \<and> tx_done (snd (NewMatch_body f req \<lparr>tx_work = db, tx_done = False\<rparr>))
      \<and> NewMatch f req db = (Inl err, db)
      \<and> client_matches (snd (NewMatch f req db)) = client_matches db)"
proof (intro conjI impI; elim conjE)
  assume a: "on_Begin f = None" "on_Insert f = Some err"
  show "NewMatch_body f req \<lparr>tx_work = db, tx_done = False\<rparr> = (Inl err, \<lparr>tx_work = db, tx_done = True\<rparr>)"
    using a by (simp add: NewMatch_body_insert_fails)
  show "NewMatch f req db = (Inl err, db)"
    using a by (rule NewMatch_insert_fails)
next
  assume a: "on_Begin f = None" "on_Insert f = None" "on_Update f = Some err"
  have body: "fst (NewMatch_body f req \<lparr>tx_work = db, tx_done = False\<rparr>) = Inl err
      \<and> tx_done (snd (NewMatch_body f req \<lparr>tx_work = db, tx_done = False\<rparr>))"
    using a by (simp add: NewMatch_body_update_fails)
  show "fst (NewMatch_body f req \<lparr>tx_work = db, tx_done = False\<rparr>) = Inl err"
    using body by simp
  show "tx_done (snd (NewMatch_body f req \<lparr>tx_work = db, tx_done = False\<rparr>))"
    using body by simp
  show "NewMatch f req db = (Inl err, db)"
    using a by (rule NewMatch_update_fails)
  then show "client_matches (snd (NewMatch f req db)) = client_matches db"
    by simp
qed

theorem NewMatch_failed_step_rolls_back_witness:
  "on_Begin (no_faults\<lparr>on_Insert := Some (EngineError ''lock wait timeout'')\<rparr>) = None
   \<and> on_Insert (no_faults\<lparr>on_Insert := Some (EngineError ''lock wait timeout'')\<rparr>)
       = Some (EngineError ''lock wait timeout'')
   \<and> NewMatch (no_faults\<lparr>on_Insert := Some (EngineError ''lock wait timeout'')\<rparr>)
        \<lparr>nm_ClientId = ''a'', nm_Score = 5\<rparr>
        \<lparr>clients = [\<lparr>id_col = ''a'', name_col = ''Ann'', birthday_col = None, score_col = 10,
                      created_at_col = Some zero_Time\<rparr>],
         client_matches = [], auto_increment = 1, clock = zero_Time\<rparr>
       = (Inl (EngineError ''lock wait timeout''),
          \<lparr>clients = [\<lparr>id_col = ''a'', name_col = ''Ann'', birthday_col = None, score_col = 10,
                        created_at_col = Some zero_Time\<rparr>],
           client_matches = [], auto_increment = 1, clock = zero_Time\<rparr>)
   \<and> on_Begin (no_faults\<lparr>on_Update := Some (EngineError ''deadlock'')\<rparr>) = None
   \<and> on_Insert (no_faults\<lparr>on_Update := Some (EngineError ''deadlock'')\<rparr>) = None
   \<and> on_Update (no_faults\<lparr>on_Update := Some (EngineError ''deadlock'')\<rparr>)
       = Some (EngineError ''deadlock'')
   \<and> NewMatch (no_faults\<lparr>on_Update := Some (EngineError ''deadlock'')\<rparr>)
        \<lparr>nm_ClientId = ''a'', nm_Score = 5\<rparr>
        \<lparr>clients = [\<lparr>id_col = ''a'', name_col = ''Ann'', birthday_col = None, score_col = 10,
                      created_at_col = Some zero_Time\<rparr>],
         client_matches = [], auto_increment = 1, clock = zero_Time\<rparr>
       = (Inl (EngineError ''deadlock''),
          \<lparr>clients = [\<lparr>id_col = ''a'', name_col = ''Ann'', birthday_col = None, score_col = 10,
                        created_at_col = Some zero_Time\<rparr>],
           client_matches = [], auto_increment = 1, clock = zero_Time\<rparr>)
   \<and> client_matches (snd (NewMatch (no_faults\<lparr>on_Update := Some (EngineError ''deadlock'')\<rparr>)
        \<lparr>nm_ClientId = ''a'', nm_Score = 5\<rparr>
        \<lparr>clients = [\<lparr>id_col = ''a'', name_col = ''Ann'', birthday_col = None, score_col = 10,
                      created_at_col = Some zero_Time\<rparr>],
         client_matches = [], auto_increment = 1, clock = zero_Time\<rparr>)) = []"
  using NewMatch_failed_step_rolls_back
    [of "no_faults\<lparr>on_Insert := Some (EngineError ''lock wait timeout'')\<rparr>"
        "EngineError ''lock wait timeout''" "\<lparr>nm_ClientId = ''a'', nm_Score = 5\<rparr>"
        "\<lparr>clients = [\<lparr>id_col = ''a'', name_col = ''Ann'', birthday_col = None, score_col = 10,
                      created_at_col = Some zero_Time\<rparr>],
         client_matches = [], auto_increment = 1, clock = zero_Time\<rparr>"]
    NewMatch_failed_step_rolls_back
    [of "no_faults\<lparr>on_Update := Some (EngineError ''deadlock'')\<rparr>"
        "EngineError ''deadlock''" "\<lparr>nm_ClientId = ''a'', nm_Score = 5\<rparr>"
        "\<lparr>clients = [\<lparr>id_col = ''a'', name_col = ''Ann'', birthday_col = None, score_col = 10,
                      created_at_col = Some zero_Time\<rparr>],
         client_matches = [], auto_increment = 1, clock = zero_Time\<rparr>"]
  by (simp add: no_faults_def)

section \<open>The score invariant\<close>

lemma NewClient_cases:
  obtains (failed) err where "NewClient new_id fault req db = (Inl err, db)"
  | (inserted) row where "new_id \<notin> set (map id_col (clients db))" "id_col row = new_id"
      "score_col row = nc_Score req"
      "NewClient new_id fault req db
         = (Inr (NewClientResponse new_id), db\<lparr>clients := clients db @ [row]\<rparr>)"
proof (cases fault)
  case (Some err)
  then show ?thesis using failed by (simp add: NewClient_fault)
next
  case None
  show ?thesis
  proof (cases "new_id \<in> set (map id_col (clients db))")
    case True
    with None show ?thesis
      using failed [of "EngineError ''Error 1062: Duplicate entry''"]
      by (cases "nc_Birthday req = 0") (simp_all add: NewClient_zero NewClient_nonzero)
  next
    case False
    show ?thesis
    proof (cases "nc_Birthday req = 0")
      case True
      with None False show ?thesis
        using inserted [of "\<lparr>id_col = new_id, name_col = nc_Name req, birthday_col = None,
                  score_col = nc_Score req, created_at_col = Some (clock db)\<rparr>"]
        by (simp add: NewClient_zero)
    next
      case nz: False
      with None False show ?thesis
        using inserted [of "\<lparr>id_col = new_id, name_col = nc_Name req,
                  birthday_col = Some (time_Unix 0 (nc_Birthday req)),
                  score_col = nc_Score req, created_at_col = Some (clock db)\<rparr>"]
        by (simp add: NewClient_nonzero)
    qed
  qed
qed

lemma match_total_unreferenced:
  "c \<notin> set (map client_id_col (client_matches db)) \<Longrightarrow> match_total db c = 0"
proof -
  assume "c \<notin> set (map client_id_col (client_matches db))"
  then have "filter (\<lambda>m. client_id_col m = c) (client_matches db) = []"
    by (auto simp add: filter_empty_conv)
  then show ?thesis by (simp add: match_total_def)
qed

lemma match_total_clients_update [simp]:
  "match_total (db\<lparr>clients := cs\<rparr>) c = match_total db c"
  by (simp add: match_total_def)

lemma score_consistent_NewClient:
  assumes inv: "score_consistent db created"
    and fresh: "new_id \<notin> set (map client_id_col (client_matches db))"
  shows "score_consistent (step (CallNewClient new_id fault req) db)
           (creation (CallNewClient new_id fault req) db created)"
proof (cases new_id fault req db rule: NewClient_cases)
  case (failed err)
  with inv show ?thesis by simp
next
  case (inserted row)
  have old: "created (id_col r) = Some (score_col r - match_total db (id_col r))"
    if "r \<in> set (clients db)" for r
    using inv that by (simp add: score_consistent_def)
  have other: "id_col r \<noteq> new_id" if "r \<in> set (clients db)" for r
    using inserted(1) that by auto
  from inserted old other match_total_unreferenced [OF fresh] show ?thesis
    by (auto simp add: score_consistent_def)
qed

lemma match_total_auto_increment_update [simp]:
  "match_total (db\<lparr>auto_increment := n\<rparr>) c = match_total db c"
  by (simp add: match_total_def)

lemma match_total_append:
  "match_total (db\<lparr>client_matches := client_matches db @ [m]\<rparr>) i
     = match_total db i + (if client_id_col m = i then match_score m else 0)"
  by (simp add: match_total_def)

lemma score_consistent_NewMatch:
  assumes inv: "score_consistent db created"
  shows "score_consistent (snd (NewMatch f req db)) created"
proof -
  have "score_consistent (snd (NewMatch no_faults req db)) created"
    using inv
    by (auto simp add: NewMatch_ok no_faults_def score_consistent_def match_total_append add_score_def)
  with inv NewMatch_store [of f req db] show ?thesis
    by auto
qed

lemma score_consistent_DeleteClient:
  assumes inv: "score_consistent db created"
  shows "score_consistent (snd (DeleteClient fault i db)) created"
  using inv
  by (cases fault) (auto simp add: DeleteClient_ok DeleteClient_fault score_consistent_def)

lemma score_consistent_DeleteAllClients:
  assumes inv: "score_consistent db created"
  shows "score_consistent (snd (DeleteAllClients fault db)) created"
  using inv
  by (cases fault) (auto simp add: DeleteAllClients_ok DeleteAllClients_fault score_consistent_def)

lemma score_consistent_run:
  "score_consistent db created \<Longrightarrow> fresh_ids calls db \<Longrightarrow>
   score_consistent (fst (run calls (db, created))) (snd (run calls (db, created)))"
proof (induction calls arbitrary: db created)
  case Nil
  then show ?case by simp
next
  case (Cons c calls)
  show ?case
  proof (cases c)
    case (CallNewClient new_id fault req)
    with Cons.prems have "score_consistent (step c db) (creation c db created)"
      using score_consistent_NewClient [of db created new_id fault req] by simp
    moreover from Cons.prems CallNewClient have "fresh_ids calls (step c db)" by simp
    ultimately show ?thesis using Cons.IH by simp
  next
    case (CallNewMatch f req)
    with Cons.prems have "score_consistent (step c db) (creation c db created)"
      using score_consistent_NewMatch [of db created f req] by simp
    moreover from Cons.prems CallNewMatch have "fresh_ids calls (step c db)" by simp
    ultimately show ?thesis using Cons.IH by simp
  next
    case (CallDeleteClient fault i)
    with Cons.prems have "score_consistent (step c db) (creation c db created)"
      using score_consistent_DeleteClient [of db created fault i] by simp
    moreover from Cons.prems CallDeleteClient have "fresh_ids calls (step c db)" by simp
    ultimately show ?thesis using Cons.IH by simp
  next
    case (CallDeleteAllClients fault)
    with Cons.prems have "score_consistent (step c db) (creation c db created)"
      using score_consistent_DeleteAllClients [of db created fault] by simp
    moreover from Cons.prems CallDeleteAllClients have "fresh_ids calls (step c db)" by simp
    ultimately show ?thesis using Cons.IH by simp
  qed
qed

lemma score_consistent_empty: "score_consistent (empty_store now) Map.empty"
  by (simp add: score_consistent_def empty_store_def)

lemma filter_add_score:
  "filter (\<lambda>r. id_col r = c) (map (add_score s c) rows)
     = map (\<lambda>r. r\<lparr>score_col := score_col r + s\<rparr>) (filter (\<lambda>r. id_col r = c) rows)"
  by (induction rows) (simp_all add: add_score_def)

lemma toClient_score_update:
  "toClient (scan_client (r\<lparr>score_col := score_col r + s\<rparr>))
     = (toClient (scan_client r))\<lparr>c_Score := c_Score (toClient (scan_client r)) + s\<rparr>"
  by (simp add: toClient_def scan_client_def NullInt64_Scan_def)

lemma GetClients_after_NewMatch:
  assumes ok: "fst (NewMatch f req db) = Inr resp" and commit: "on_Commit f = None"
    and before: "GetClients None [nm_ClientId req] db = Inr (GetClientsResponse cs)"
  shows "GetClients None [nm_ClientId req] (snd (NewMatch f req db))
           = Inr (GetClientsResponse (map (\<lambda>x. x\<lparr>c_Score := c_Score x + nm_Score req\<rparr>) cs))"
proof -
  from NewMatch_success_cases [OF ok] commit
  have after: "clients (snd (NewMatch f req db))
                 = map (add_score (nm_Score req) (nm_ClientId req)) (clients db)"
    by (simp add: NewMatch_ok)
  from before have cs: "cs = map toClient (map scan_client
      (filter (\<lambda>r. id_col r = nm_ClientId req) (clients db)))"
    by (simp add: GetClients_one)
  show ?thesis
    by (simp add: GetClients_one after filter_add_score cs toClient_score_update comp_def)
qed

text \<open>
  In every store reached from the empty one by a history of calls (whatever faults the
  engine answers with, the generated ids being fresh), every client's stored score is its
  creation-time score plus the sum of the deltas of the match rows that reference it.
  And when NewMatch returns a response and its Commit went through, GetClients of the
  client's id shows afterwards what it showed before with the score increased by exactly
  the delta.
\<close>

lemma score_invariant_and_committed_NewMatch:
  "(fresh_ids calls (empty_store now) \<longrightarrow>
      (\<forall>r \<in> set (clients (fst (run calls (empty_store now, Map.empty)))).
         \<exists>s0. snd (run calls (empty_store now, Map.empty)) (id_col r) = Some s0
            \<and> score_col r = s0 + match_total (fst (run calls (empty_store now, Map.empty))) (id_col r)))
   \<and> (fst (NewMatch f req db) = Inr resp \<and> on_Commit f = None
        \<and> GetClients None [nm_ClientId req] db = Inr (GetClientsResponse cs) \<longrightarrow>
      GetClients None [nm_ClientId req] (snd (NewMatch f req db))
        = Inr (GetClientsResponse (map (\<lambda>x. x\<lparr>c_Score := c_Score x + nm_Score req\<rparr>) cs)))"
proof (intro conjI impI)
  assume "fresh_ids calls (empty_store now)"
  with score_consistent_empty [of now]
  have "score_consistent (fst (run calls (empty_store now, Map.empty)))
          (snd (run calls (empty_store now, Map.empty)))"
    by (rule score_consistent_run)
  then show "\<forall>r \<in> set (clients (fst (run calls (empty_store now, Map.empty)))).
         \<exists>s0. snd (run calls (empty_store now, Map.empty)) (id_col r) = Some s0
            \<and> score_col r = s0 + match_total (fst (run calls (empty_store now, Map.empty))) (id_col r)"
    by (simp add: score_consistent_def)
next
  assume "fst (NewMatch f req db) = Inr resp \<and> on_Commit f = None
        \<and> GetClients None [nm_ClientId req] db = Inr (GetClientsResponse cs)"
  then show "GetClients None [nm_ClientId req] (snd (NewMatch f req db))
        = Inr (GetClientsResponse (map (\<lambda>x. x\<lparr>c_Score := c_Score x + nm_Score req\<rparr>) cs))"
    by (simp add: GetClients_after_NewMatch)
qed

lemma score_invariant_and_committed_NewMatch_example:
  "fresh_ids
     [CallNewClient ''a'' None \<lparr>nc_Name = ''Ann'', nc_Birthday = 0, nc_Score = 10\<rparr>,
      CallNewMatch no_faults \<lparr>nm_ClientId = ''a'', nm_Score = 5\<rparr>,
      CallNewMatch (no_faults\<lparr>on_Update := Some (EngineError ''deadlock'')\<rparr>)
        \<lparr>nm_ClientId = ''a'', nm_Score = 3\<rparr>,
      CallNewMatch no_faults \<lparr>nm_ClientId = ''zz'', nm_Score = 4\<rparr>,
      CallDeleteClient None ''b''] (empty_store zero_Time)
   \<and> map score_col (clients (fst (run
     [CallNewClient ''a'' None \<lparr>nc_Name = ''Ann'', nc_Birthday = 0, nc_Score = 10\<rparr>,
      CallNewMatch no_faults \<lparr>nm_ClientId = ''a'', nm_Score = 5\<rparr>,
      CallNewMatch (no_faults\<lparr>on_Update := Some (EngineError ''deadlock'')\<rparr>)
        \<lparr>nm_ClientId = ''a'', nm_Score = 3\<rparr>,
      CallNewMatch no_faults \<lparr>nm_ClientId = ''zz'', nm_Score = 4\<rparr>,
      CallDeleteClient None ''b''] (empty_store zero_Time, Map.empty)))) = [15]
   \<and> snd (run
     [CallNewClient ''a'' None \<lparr>nc_Name = ''Ann'', nc_Birthday = 0, nc_Score = 10\<rparr>,
      CallNewMatch no_faults \<lparr>nm_ClientId = ''a'', nm_Score = 5\<rparr>,
      CallNewMatch (no_faults\<lparr>on_Update := Some (EngineError ''deadlock'')\<rparr>)
        \<lparr>nm_ClientId = ''a'', nm_Score = 3\<rparr>,
      CallNewMatch no_faults \<lparr>nm_ClientId = ''zz'', nm_Score = 4\<rparr>,
      CallDeleteClient None ''b''] (empty_store zero_Time, Map.empty)) ''a'' = Some 10
   \<and> match_total (fst (run
     [CallNewClient ''a'' None \<lparr>nc_Name = ''Ann'', nc_Birthday = 0, nc_Score = 10\<rparr>,
      CallNewMatch no_faults \<lparr>nm_ClientId = ''a'', nm_Score = 5\<rparr>,
      CallNewMatch (no_faults\<lparr>on_Update := Some (EngineError ''deadlock'')\<rparr>)
        \<lparr>nm_ClientId = ''a'', nm_Score = 3\<rparr>,
      CallNewMatch no_faults \<lparr>nm_ClientId = ''zz'', nm_Score = 4\<rparr>,
      CallDeleteClient None ''b''] (empty_store zero_Time, Map.empty))) ''a'' = 5
   \<and> fst (NewMatch no_faults \<lparr>nm_ClientId = ''a'', nm_Score = 5\<rparr>
        \<lparr>clients = [\<lparr>id_col = ''a'', name_col = ''Ann'', birthday_col = None, score_col = 10,
                      created_at_col = Some zero_Time\<rparr>],
         client_matches = [], auto_increment = 1, clock = zero_Time\<rparr>) = Inr (NewMatchResponse 1)
   \<and> on_Commit no_faults = None
   \<and> GetClients None [''a'']
        \<lparr>clients = [\<lparr>id_col = ''a'', name_col = ''Ann'', birthday_col = None, score_col = 10,
                      created_at_col = Some zero_Time\<rparr>],
         client_matches = [], auto_increment = 1, clock = zero_Time\<rparr>
       = Inr (GetClientsResponse
           [\<lparr>c_Id = ''a'', c_Name = ''Ann'', c_Birthday = - 6795364578871345152, c_Score = 10,
             c_CreatedAt = - 6795364578871345152\<rparr>])
   \<and> GetClients None [''a'']
        (snd (NewMatch no_faults \<lparr>nm_ClientId = ''a'', nm_Score = 5\<rparr>
          \<lparr>clients = [\<lparr>id_col = ''a'', name_col = ''Ann'', birthday_col = None, score_col = 10,
                        created_at_col = Some zero_Time\<rparr>],
           client_matches = [], auto_increment = 1, clock = zero_Time\<rparr>))
       = Inr (GetClientsResponse
           [\<lparr>c_Id = ''a'', c_Name = ''Ann'', c_Birthday = - 6795364578871345152, c_Score = 15,
             c_CreatedAt = - 6795364578871345152\<rparr>])"
  using score_invariant_and_committed_NewMatch
    [of "[CallNewClient ''a'' None \<lparr>nc_Name = ''Ann'', nc_Birthday = 0, nc_Score = 10\<rparr>,
      CallNewMatch no_faults \<lparr>nm_ClientId = ''a'', nm_Score = 5\<rparr>,
      CallNewMatch (no_faults\<lparr>on_Update := Some (EngineError ''deadlock'')\<rparr>)
        \<lparr>nm_ClientId = ''a'', nm_Score = 3\<rparr>,
      CallNewMatch no_faults \<lparr>nm_ClientId = ''zz'', nm_Score = 4\<rparr>,
      CallDeleteClient None ''b'']" zero_Time no_faults "\<lparr>nm_ClientId = ''a'', nm_Score = 5\<rparr>"
      "\<lparr>clients = [\<lparr>id_col = ''a'', name_col = ''Ann'', birthday_col = None, score_col = 10,
                      created_at_col = Some zero_Time\<rparr>],
         client_matches = [], auto_increment = 1, clock = zero_Time\<rparr>"
      "NewMatchResponse 1"
      "[\<lparr>c_Id = ''a'', c_Name = ''Ann'', c_Birthday = - 6795364578871345152, c_Score = 10,
             c_CreatedAt = - 6795364578871345152\<rparr>]"]
  by (simp add: empty_store_def NewClient_zero NewMatch_ok NewMatch_update_fails no_faults_def
      DeleteClient_ok match_total_def add_score_def GetClients_one scan_client_def toClient_def
      NullTime_Scan_def NullInt64_Scan_def UnixNano_zero_Time)

text \<open>
  C1. The invariant holds in every reachable store, but the score shown after a NewMatch
  that reports success is not always the old score plus the delta: the result of the
  deferred \<^verbatim>\<open>tx.Commit()\<close> is dropped, so when the engine refuses the commit NewMatch
  still returns its response with a nil error while nothing is stored. With one client of
  score 10 and a delta of 5, GetClients shows 10 before and 10 after.
\<close>

theorem NewMatch_refused_commit_reports_success:
  "NewMatch (no_faults\<lparr>on_Commit := Some err\<rparr>) req db
     = (Inr (NewMatchResponse (auto_increment db)), db)
   \<and> GetClients None [''a'']
        \<lparr>clients = [\<lparr>id_col = ''a'', name_col = ''Ann'', birthday_col = None, score_col = 10,
                      created_at_col = Some (time_Unix 1600000000 0)\<rparr>],
         client_matches = [], auto_increment = 1, clock = time_Unix 1600000000 0\<rparr>
       = Inr (GetClientsResponse
           [\<lparr>c_Id = ''a'', c_Name = ''Ann'', c_Birthday = - 6795364578871345152, c_Score = 10,
             c_CreatedAt = 1600000000000000000\<rparr>])
   \<and> NewMatch (no_faults\<lparr>on_Commit := Some (EngineError ''driver: bad connection'')\<rparr>)
        \<lparr>nm_ClientId = ''a'', nm_Score = 5\<rparr>
        \<lparr>clients = [\<lparr>id_col = ''a'', name_col = ''Ann'', birthday_col = None, score_col = 10,
                      created_at_col = Some (time_Unix 1600000000 0)\<rparr>],
         client_matches = [], auto_increment = 1, clock = time_Unix 1600000000 0\<rparr>
       = (Inr (NewMatchResponse 1),
          \<lparr>clients = [\<lparr>id_col = ''a'', name_col = ''Ann'', birthday_col = None, score_col = 10,
                        created_at_col = Some (time_Unix 1600000000 0)\<rparr>],
           client_matches = [], auto_increment = 1, clock = time_Unix 1600000000 0\<rparr>)
   \<and> GetClients None [''a'']
        (snd (NewMatch (no_faults\<lparr>on_Commit := Some (EngineError ''driver: bad connection'')\<rparr>)
          \<lparr>nm_ClientId = ''a'', nm_Score = 5\<rparr>
          \<lparr>clients = [\<lparr>id_col = ''a'', name_col = ''Ann'', birthday_col = None, score_col = 10,
                        created_at_col = Some (time_Unix 1600000000 0)\<rparr>],
           client_matches = [], auto_increment = 1, clock = time_Unix 1600000000 0\<rparr>))
       = Inr (GetClientsResponse
           [\<lparr>c_Id = ''a'', c_Name = ''Ann'', c_Birthday = - 6795364578871345152, c_Score = 10,
             c_CreatedAt = 1600000000000000000\<rparr>])"
proof -
  have refused: "NewMatch (no_faults\<lparr>on_Commit := Some e\<rparr>) r d
      = (Inr (NewMatchResponse (auto_increment d)), d)" for e r d
    by (rule NewMatch_commit_fails) (simp_all add: no_faults_def)
  have shown: "GetClients None [''a'']
        \<lparr>clients = [\<lparr>id_col = ''a'', name_col = ''Ann'', birthday_col = None, score_col = 10,
                      created_at_col = Some (time_Unix 1600000000 0)\<rparr>],
         client_matches = [], auto_increment = 1, clock = time_Unix 1600000000 0\<rparr>
       = Inr (GetClientsResponse
           [\<lparr>c_Id = ''a'', c_Name = ''Ann'', c_Birthday = - 6795364578871345152, c_Score = 10,
             c_CreatedAt = 1600000000000000000\<rparr>])"
    by (simp add: GetClients_one scan_client_def toClient_def NullTime_Scan_def NullInt64_Scan_def
        UnixNano_zero_Time)
       (simp add: UnixNano_def time_Unix_def internalToUnix_def unixToInternal_def int64_wrap_def)
  show ?thesis
    by (simp add: refused shown)
qed

section \<open>Properties of QueryClients\<close>

lemma placeholders_Nil [simp]: "placeholders [] = 0"
  by (simp add: placeholders_def)

lemma placeholders_Cons [simp]:
  "placeholders (c # q) = (if c = CHR ''?'' then Suc (placeholders q) else placeholders q)"
  by (simp add: placeholders_def)

lemma placeholders_append [simp]: "placeholders (p @ q) = placeholders p + placeholders q"
  by (simp add: placeholders_def)

lemma placeholders_Join:
  "placeholders sep = 0 \<Longrightarrow> placeholders (strings_Join xs sep) = sum_list (map placeholders xs)"
  by (induction xs sep rule: strings_Join.induct) simp_all

lemma placeholders_operator_sql: "placeholders (operator_sql op) = operator_arity op"
  by (cases op) simp_all

lemma parts_ToSql_Part:
  "parts_ToSql (Part sql args # ps) = Inr (sqls, all_args) \<longleftrightarrow>
     (\<exists>sqls' rest. parts_ToSql ps = Inr (sqls', rest) \<and> sqls = sql # sqls' \<and> all_args = args @ rest)"
  by (auto split: sum.splits)

lemma parts_ToSql_balanced:
  "list_all balanced ps \<Longrightarrow> parts_ToSql ps = Inr (sqls, args) \<Longrightarrow>
   sum_list (map placeholders sqls) = length args"
proof (induction ps arbitrary: sqls args)
  case Nil
  then show ?case by simp
next
  case (Cons p ps)
  show ?case
  proof (cases p)
    case (Part sql a)
    with Cons.prems obtain sqls' rest where
      "parts_ToSql ps = Inr (sqls', rest)" "sqls = sql # sqls'" "args = a @ rest"
      by (auto simp add: parts_ToSql_Part simp del: parts_ToSql.simps)
    with Cons.IH [of sqls' rest] Cons.prems(1) Part show ?thesis
      by simp
  next
    case (BadPart err)
    with Cons.prems show ?thesis by simp
  qed
qed

lemma Select_ToSql_placeholders:
  assumes "Select_ToSql b = Inr (q, args)"
    and "Columns b = [''id'']" "From b = ''clients''" "OrderBys b = [''score DESC'']"
  shows "\<exists>sqls. parts_ToSql (WhereParts b) = Inr (sqls, args)
           \<and> placeholders q = sum_list (map placeholders sqls)"
  using assms
  by (auto simp add: Select_ToSql_def placeholders_Join split: sum.splits if_splits)

lemma filter_Where_fields [simp]:
  "Columns (filter_Where f col b) = Columns b"
  "From (filter_Where f col b) = From b"
  "OrderBys (filter_Where f col b) = OrderBys b"
  by (cases f; simp)+

lemma filter_Where_parts:
  "placeholders col = 0 \<Longrightarrow>
   \<exists>p. WhereParts (filter_Where f col b) = WhereParts b @ [p] \<and> balanced p"
  by (cases f) (simp_all add: placeholders_operator_sql)

lemma QueryClients_builder_fields:
  "Columns (QueryClients_builder req) = [''id'']"
  "From (QueryClients_builder req) = ''clients''"
  "OrderBys (QueryClients_builder req) = [''score DESC'']"
  by (simp_all add: QueryClients_builder_def Let_def sq_OrderBy_def sq_Where_def sq_From_def
      sq_Select_def split: option.splits)

lemma filter_Where_balanced:
  "placeholders col = 0 \<Longrightarrow> list_all balanced (WhereParts b) \<Longrightarrow>
   list_all balanced (WhereParts (filter_Where f col b))"
  using filter_Where_parts [where col = col and f = f and b = b] by auto

lemma option_filter_balanced:
  "placeholders col = 0 \<Longrightarrow> list_all balanced (WhereParts b) \<Longrightarrow>
   list_all balanced (WhereParts (case fo of Some f \<Rightarrow> filter_Where f col b | None \<Rightarrow> b))"
  by (cases fo) (simp_all add: filter_Where_balanced)

lemma option_filter_prefix:
  "placeholders col = 0 \<Longrightarrow>
   \<exists>ps. WhereParts (case fo of Some f \<Rightarrow> filter_Where f col b | None \<Rightarrow> b) = WhereParts b @ ps
        \<and> list_all balanced ps"
proof (cases fo)
  case None
  then show ?thesis by simp
next
  case (Some f)
  assume "placeholders col = 0"
  from filter_Where_parts [OF this, where f = f and b = b] Some show ?thesis by auto
qed

lemma QueryClients_builder_parts:
  "\<exists>ps. WhereParts (QueryClients_builder req)
          = (case q_Id req of Some v \<Rightarrow> [Part ''id'' [VString v]] | None \<Rightarrow> []) @ ps
        \<and> list_all balanced ps"
proof -
  define b0 where "b0 = sq_From ''clients'' (sq_Select [''id''])"
  define b1 where "b1 = (case q_Id req of Some v \<Rightarrow> sq_Where ''id'' [VString v] b0 | None \<Rightarrow> b0)"
  define b2 where "b2 = (case q_Name req of Some v \<Rightarrow> sq_Where ''name LIKE ?'' [VString v] b1 | None \<Rightarrow> b1)"
  define b3 where "b3 = (case q_Birthday req of Some f \<Rightarrow> filter_Where f ''birthday'' b2 | None \<Rightarrow> b2)"
  define b4 where "b4 = (case q_Score req of Some f \<Rightarrow> filter_Where f ''score'' b3 | None \<Rightarrow> b3)"
  define b5 where "b5 = (case q_CreatedAt req of Some f \<Rightarrow> filter_Where f ''created_at'' b4 | None \<Rightarrow> b4)"
  have builder: "WhereParts (QueryClients_builder req) = WhereParts b5"
    unfolding QueryClients_builder_def Let_def b0_def b1_def b2_def b3_def b4_def b5_def
      sq_OrderBy_def
    by simp
  have p1: "WhereParts b1 = (case q_Id req of Some v \<Rightarrow> [Part ''id'' [VString v]] | None \<Rightarrow> [])"
    by (simp add: b1_def b0_def sq_Where_def sq_From_def sq_Select_def split: option.splits)
  obtain ps2 where p2: "WhereParts b2 = WhereParts b1 @ ps2" "list_all balanced ps2"
    by (cases "q_Name req") (simp_all add: b2_def sq_Where_def)
  obtain ps3 where p3: "WhereParts b3 = WhereParts b2 @ ps3" "list_all balanced ps3"
    using option_filter_prefix [where col = "''birthday''" and fo = "q_Birthday req" and b = b2] by (auto simp add: b3_def)
  obtain ps4 where p4: "WhereParts b4 = WhereParts b3 @ ps4" "list_all balanced ps4"
    using option_filter_prefix [where col = "''score''" and fo = "q_Score req" and b = b3] by (auto simp add: b4_def)
  obtain ps5 where p5: "WhereParts b5 = WhereParts b4 @ ps5" "list_all balanced ps5"
    using option_filter_prefix [where col = "''created_at''" and fo = "q_CreatedAt req" and b = b4] by (auto simp add: b5_def)
  from builder p1 p2 p3 p4 p5 show ?thesis
    by (intro exI [of _ "ps2 @ ps3 @ ps4 @ ps5"]) simp
qed

lemma QueryClients_placeholders_without_id:
  assumes "q_Id req = None" and "Select_ToSql (QueryClients_builder req) = Inr (q, args)"
  shows "placeholders q = length args"
proof -
  from QueryClients_builder_parts [of req] assms(1)
  have "list_all balanced (WhereParts (QueryClients_builder req))"
    by auto
  moreover from Select_ToSql_placeholders [OF assms(2) QueryClients_builder_fields]
  obtain sqls where "parts_ToSql (WhereParts (QueryClients_builder req)) = Inr (sqls, args)"
    "placeholders q = sum_list (map placeholders sqls)"
    by auto
  ultimately show ?thesis
    by (simp add: parts_ToSql_balanced)
qed

lemma QueryClients_placeholders_with_id:
  assumes "q_Id req = Some v" and "Select_ToSql (QueryClients_builder req) = Inr (q, args)"
  shows "length args = Suc (placeholders q) \<and> hd args = VString v"
proof -
  from QueryClients_builder_parts [of req] assms(1)
  obtain ps where ps: "WhereParts (QueryClients_builder req) = Part ''id'' [VString v] # ps"
    "list_all balanced ps"
    by auto
  from Select_ToSql_placeholders [OF assms(2) QueryClients_builder_fields]
  obtain sqls where sqls: "parts_ToSql (WhereParts (QueryClients_builder req)) = Inr (sqls, args)"
    "placeholders q = sum_list (map placeholders sqls)"
    by auto
  from sqls(1) ps(1) obtain sqls' rest where rest: "parts_ToSql ps = Inr (sqls', rest)"
    "sqls = ''id'' # sqls'" "args = [VString v] @ rest"
    by (auto simp add: parts_ToSql_Part simp del: parts_ToSql.simps)
  from parts_ToSql_balanced [OF ps(2) rest(1)] rest sqls(2) show ?thesis
    by simp
qed

text \<open>
  C2. One bound parameter per populated filter, in placeholder order: this holds for
  every request without the id filter (\<open>QueryClients_placeholders_without_id\<close>). The id
  filter is added as \<^verbatim>\<open>rq.Where("id", req.Id.Value)\<close>: its parameter is bound, but its
  clause is the bare column name, without the \<^verbatim>\<open>= ?\<close> the name filter's
  \<^verbatim>\<open>name LIKE ?\<close> has. So with the id filter the statement has one parameter more
  than placeholders (\<open>QueryClients_placeholders_with_id\<close>), and next to the name filter
  the only placeholder, that of \<^verbatim>\<open>LIKE\<close>, is met by the id.
\<close>

theorem QueryClients_id_filter_has_no_placeholder:
  "Select_ToSql (QueryClients_builder
      \<lparr>q_Id = Some ''c1'', q_Name = None, q_Birthday = None, q_Score = None, q_CreatedAt = None\<rparr>)
     = Inr (''SELECT id FROM clients WHERE id ORDER BY score DESC'', [VString ''c1''])
   \<and> placeholders ''SELECT id FROM clients WHERE id ORDER BY score DESC'' = 0
   \<and> Select_ToSql (QueryClients_builder
      \<lparr>q_Id = Some ''c1'', q_Name = Some ''An%'', q_Birthday = None, q_Score = None, q_CreatedAt = None\<rparr>)
     = Inr (''SELECT id FROM clients WHERE id AND name LIKE ? ORDER BY score DESC'',
            [VString ''c1'', VString ''An%''])
   \<and> placeholders ''SELECT id FROM clients WHERE id AND name LIKE ? ORDER BY score DESC'' = 1"
  by (simp add: QueryClients_builder_def Let_def Select_ToSql_def sq_OrderBy_def sq_Where_def
      sq_From_def sq_Select_def)

lemma QueryClients_no_filters_statement:
  "Select_ToSql (QueryClients_builder
      \<lparr>q_Id = None, q_Name = None, q_Birthday = None, q_Score = None, q_CreatedAt = None\<rparr>)
     = Inr (''SELECT id FROM clients ORDER BY score DESC'', [])"
  by (simp add: QueryClients_builder_def Let_def Select_ToSql_def sq_OrderBy_def sq_From_def
      sq_Select_def)

lemma order_by_score_desc_sorted:
  "sorted_wrt (\<lambda>a b. score_col b \<le> score_col a) (order_by_score_desc rows)"
proof -
  have "sorted (map (\<lambda>r. - score_col r) (order_by_score_desc rows))"
    by (simp add: order_by_score_desc_def)
  then show ?thesis
    by (simp add: sorted_map)
qed

text \<open>
  C8. With no filter populated the statement is
  \<^verbatim>\<open>SELECT id FROM clients ORDER BY score DESC\<close> without parameters, and QueryClients
  returns the ids of a permutation of all stored clients in which scores never increase.
\<close>

theorem QueryClients_no_filters_all_ids_by_score:
  "Select_ToSql (QueryClients_builder
      \<lparr>q_Id = None, q_Name = None, q_Birthday = None, q_Score = None, q_CreatedAt = None\<rparr>)
     = Inr (''SELECT id FROM clients ORDER BY score DESC'', [])
   \<and> QueryClients None
      \<lparr>q_Id = None, q_Name = None, q_Birthday = None, q_Score = None, q_CreatedAt = None\<rparr> db
     = Inr (QueryClientsResponse (map id_col (order_by_score_desc (clients db))))
   \<and> mset (order_by_score_desc (clients db)) = mset (clients db)
   \<and> sorted_wrt (\<lambda>a b. score_col b \<le> score_col a) (order_by_score_desc (clients db))"
  by (simp add: QueryClients_def QueryClients_no_filters_statement SelectContext_ids_def
      order_by_score_desc_sorted) (simp add: order_by_score_desc_def)

lemma QueryClients_example:
  "QueryClients None
      \<lparr>q_Id = None, q_Name = None, q_Birthday = None, q_Score = None, q_CreatedAt = None\<rparr>
      \<lparr>clients =
         [\<lparr>id_col = ''a'', name_col = ''Ann'', birthday_col = None, score_col = 3, created_at_col = None\<rparr>,
          \<lparr>id_col = ''b'', name_col = ''Bob'', birthday_col = None, score_col = 9, created_at_col = None\<rparr>,
          \<lparr>id_col = ''c'', name_col = ''Cy'', birthday_col = None, score_col = -2, created_at_col = None\<rparr>],
       client_matches = [], auto_increment = 1, clock = zero_Time\<rparr>
     = Inr (QueryClientsResponse [''b'', ''a'', ''c''])"
  by (simp add: QueryClients_def QueryClients_no_filters_statement SelectContext_ids_def
      order_by_score_desc_def)

end
